theory Spec2Isabelle
  imports Complex_Main "HOL-Library.Multiset"
begin

section \<open>Data model\<close>

text \<open>
  The service (\<^verbatim>\<open>py-embed/app\<close>) chunks a text, encodes the chunks with a sentence
  embedding model and keeps the vectors in the table \<^verbatim>\<open>embeddings\<close> of a relational
  store. Python's \<^verbatim>\<open>float\<close> is modelled by \<open>real\<close>, \<^verbatim>\<open>int\<close> by \<open>int\<close>,
  \<^verbatim>\<open>typing.Optional[t]\<close> by \<open>t option\<close>, and a \<^verbatim>\<open>dict\<close> by an association list.
  Field names carry a prefix naming their class, since several classes share field names.
\<close>

type_synonym embedding = "real list"
type_synonym uuid = string
type_synonym py_dict = "(string \<times> string) list"

datatype error =
    AttributeError string
  | IndexError
  | SplitterError string
  | EncoderError string
  | DatabaseError string

text \<open>\<^verbatim>\<open>main.py\<close>: the request and response classes.\<close>

record SearchEmbeddingsBody =
  search_query :: string
  search_language :: "string option"
  search_cutoff :: "real option"
  search_top_k :: "int option"

record SearchResult =
  sr_uuid :: uuid
  sr_text :: string
  sr_reference_id :: string
  sr_score :: real

record CreateEmbeddingsBody =
  create_text :: string
  create_reference_id :: string
  create_meta :: py_dict
  create_language :: "string option"
  create_batch_size :: "int option"
  create_chunk_size :: "int option"

record EmbeddingsOutputItem =
  item_uuid :: uuid
  item_text :: string
  item_embedding :: embedding

record CreateEmbeddingsOutput =
  items :: "EmbeddingsOutputItem list"

text \<open>\<^verbatim>\<open>routers/encode.py\<close>: the request and response classes.\<close>

record EncodeQueryBody =
  eq_query :: string


record BulkEncodeItem =
  bulk_item_id :: string
  bulk_item_text :: string

record BulkEncodeBody =
  bulk_texts :: "BulkEncodeItem list"
  bulk_batch_size :: "int option"
  bulk_chunk_size :: "int option"


record BulkEncodeOutput =
  bo_id :: string
  bo_text :: string
  bo_embedding :: embedding

text \<open>A row of the table \<^verbatim>\<open>embeddings\<close>, with the columns the two SQL statements name.\<close>

record db_row =
  row_uuid :: uuid
  row_text :: string
  row_reference_id :: string
  row_embedding :: embedding
  row_language :: "string option"
  row_meta :: py_dict

section \<open>External collaborators and the state of the world\<close>

text \<open>
  The text splitter class, the embedding model, the distance operator of the store and
  its identifier generator are libraries outside the repository: they are parameters.
  The splitter's constructor and the model may raise; what they raise is their result.
\<close>

record env =
  RecursiveCharacterTextSplitter ::
    "string list \<Rightarrow> int option \<Rightarrow> int \<Rightarrow> error + (string \<Rightarrow> string list)"
  encode_list :: "string list \<Rightarrow> int option \<Rightarrow> error + embedding list"
  encode_str :: "string \<Rightarrow> int option \<Rightarrow> error + embedding"
  cosine_distance :: "embedding \<Rightarrow> embedding \<Rightarrow> real"
  uuid_generate :: "nat \<Rightarrow> uuid"

text \<open>
  Every call that leaves the service is recorded, in order: the construction of a
  splitter, a call of the model, a statement sent to the store.
\<close>

datatype event =
    SplitterCreated "string list" "int option" int
  | ModelEncode "string list" "int option"
  | ModelEncodeQuery string "int option"
  | SqlSelect embedding "real option" "int option"
  | SqlInsert db_row

record world =
  embeddings_table :: "db_row list"
  uuid_counter :: nat
  calls :: "event list"




definition log_call :: "event \<Rightarrow> world \<Rightarrow> world" where
  "log_call ev w = w\<lparr>calls := calls w @ [ev]\<rparr>"

section \<open>\<^verbatim>\<open>internal/model.py\<close>\<close>

definition separators :: "string list" where
  "separators = [[CHR 0x0A, CHR 0x0A], [CHR 0x0A], ''. '', '' '', '''']"

definition new_text_splitter ::
  "env \<Rightarrow> int option \<Rightarrow> int \<Rightarrow> world \<Rightarrow> (error + (string \<Rightarrow> string list)) \<times> world" where
  "new_text_splitter e chunk_size chunk_overlap w =
     (RecursiveCharacterTextSplitter e separators chunk_size chunk_overlap,
      log_call (SplitterCreated separators chunk_size chunk_overlap) w)"

text \<open>
  \<^verbatim>\<open>model.encode\<close> on a list of strings and on one string. The device and the
  progress bar do not reach the result and are left out.
\<close>

definition model_encode ::
  "env \<Rightarrow> string list \<Rightarrow> int option \<Rightarrow> world \<Rightarrow> (error + embedding list) \<times> world" where
  "model_encode e sentences batch_size w =
     (encode_list e sentences batch_size, log_call (ModelEncode sentences batch_size) w)"

definition model_encode_query ::
  "env \<Rightarrow> string \<Rightarrow> int option \<Rightarrow> world \<Rightarrow> (error + embedding) \<times> world" where
  "model_encode_query e sentence batch_size w =
     (encode_str e sentence batch_size, log_call (ModelEncodeQuery sentence batch_size) w)"

section \<open>\<^verbatim>\<open>main.py\<close>: search\<close>

text \<open>
  The statement of \<^verbatim>\<open>search_embeddings\<close>:
  \<^verbatim>\<open>SELECT * FROM (SELECT uuid, text, reference_id,
       1 - cosine_distance(embedding, (%s)) AS score FROM embeddings) as matches
     WHERE score > %s ORDER BY score DESC LIMIT %s;\<close>
  The inner query computes the score of every row; a comparison with \<^verbatim>\<open>NULL\<close> is not
  true, so no row passes a missing cutoff; \<^verbatim>\<open>LIMIT NULL\<close> is no limit and a negative
  limit is refused by the store. Rows of equal score are left in table order.
\<close>

type_synonym match_row = "uuid \<times> string \<times> string \<times> real"

definition match_score :: "match_row \<Rightarrow> real" where
  "match_score m = snd (snd (snd m))"

definition score_row :: "env \<Rightarrow> embedding \<Rightarrow> db_row \<Rightarrow> match_row" where
  "score_row e q r =
     (row_uuid r, row_text r, row_reference_id r, 1 - cosine_distance e (row_embedding r) q)"

definition where_score_gt :: "real option \<Rightarrow> match_row \<Rightarrow> bool" where
  "where_score_gt cutoff m = (case cutoff of None \<Rightarrow> False | Some c \<Rightarrow> match_score m > c)"

definition order_by_score_desc :: "match_row list \<Rightarrow> match_row list" where
  "order_by_score_desc ms = sort_key (\<lambda>m. - match_score m) ms"

definition limit_rows :: "int option \<Rightarrow> 'a list \<Rightarrow> error + 'a list" where
  "limit_rows top_k ms =
     (case top_k of
        None \<Rightarrow> Inr ms
      | Some k \<Rightarrow>
          if k < 0 then Inl (DatabaseError ''LIMIT must not be negative'')
          else Inr (take (nat k) ms))"

definition execute_search ::
  "env \<Rightarrow> embedding \<Rightarrow> real option \<Rightarrow> int option \<Rightarrow> world \<Rightarrow> (error + match_row list) \<times> world" where
  "execute_search e q cutoff top_k w =
     (limit_rows top_k
        (order_by_score_desc
           (filter (where_score_gt cutoff) (map (score_row e q) (embeddings_table w)))),
      log_call (SqlSelect q cutoff top_k) w)"

definition to_SearchResult :: "match_row \<Rightarrow> SearchResult" where
  "to_SearchResult row =
     \<lparr>sr_uuid = fst row, sr_text = fst (snd row), sr_reference_id = fst (snd (snd row)),
      sr_score = snd (snd (snd row))\<rparr>"

definition search_embeddings ::
  "env \<Rightarrow> SearchEmbeddingsBody \<Rightarrow> world \<Rightarrow> (error + SearchResult list) \<times> world" where
  "search_embeddings e data w =
     (case model_encode_query e (search_query data) (Some 32) w of
        (Inl err, w1) \<Rightarrow> (Inl err, w1)
      | (Inr embedding, w1) \<Rightarrow>
          (case execute_search e embedding (search_cutoff data) (search_top_k data) w1 of
             (Inl err, w2) \<Rightarrow> (Inl err, w2)
           | (Inr rows, w2) \<Rightarrow> (Inr (map to_SearchResult rows), w2)))"

section \<open>\<^verbatim>\<open>main.py\<close>: the two delete handlers\<close>

text \<open>
  Both handlers are named \<^verbatim>\<open>delete_embeddings\<close> in the source; each is registered
  under its own route. Their bodies are one \<^verbatim>\<open>return\<close> of a dictionary.
\<close>

definition delete_embeddings_uuid :: "uuid \<Rightarrow> world \<Rightarrow> py_dict \<times> world" where
  "delete_embeddings_uuid uuid w = ([(''uuid'', uuid)], w)"

definition delete_embeddings_reference_id :: "string \<Rightarrow> world \<Rightarrow> py_dict \<times> world" where
  "delete_embeddings_reference_id reference_id w = ([(''reference_id'', reference_id)], w)"

section \<open>\<^verbatim>\<open>main.py\<close>: ingestion\<close>

text \<open>
  The statement of \<^verbatim>\<open>create_embeddings\<close>,
  \<^verbatim>\<open>INSERT INTO embeddings (text, reference_id, embedding, language, meta)
     VALUES (%s, %s, %s, %s, %s) RETURNING uuid;\<close>
  followed by \<^verbatim>\<open>conn.commit()\<close>: the store generates the identifier, appends the row
  and returns the identifier.
\<close>

definition execute_insert ::
  "env \<Rightarrow> string \<Rightarrow> string \<Rightarrow> embedding \<Rightarrow> string option \<Rightarrow> py_dict \<Rightarrow> world \<Rightarrow> uuid \<times> world" where
  "execute_insert e text reference_id emb language meta w =
     (let row = \<lparr>row_uuid = uuid_generate e (uuid_counter w), row_text = text,
                 row_reference_id = reference_id, row_embedding = emb,
                 row_language = language, row_meta = meta\<rparr>
      in (row_uuid row,
          log_call (SqlInsert row)
            (w\<lparr>embeddings_table := embeddings_table w @ [row],
               uuid_counter := Suc (uuid_counter w)\<rparr>)))"

text \<open>The loop \<^verbatim>\<open>for text, e in zip(documents, output)\<close>, with \<open>result\<close> as it grows.\<close>

fun insert_loop ::
  "env \<Rightarrow> CreateEmbeddingsBody \<Rightarrow> (string \<times> embedding) list \<Rightarrow> EmbeddingsOutputItem list \<Rightarrow>
   world \<Rightarrow> EmbeddingsOutputItem list \<times> world" where
  "insert_loop e data [] result w = (result, w)"
| "insert_loop e data ((text, emb) # rest) result w =
     (case execute_insert e text (create_reference_id data) emb (create_language data)
             (create_meta data) w of
        (uuid, w') \<Rightarrow>
          insert_loop e data rest
            (result @ [\<lparr>item_uuid = uuid, item_text = text, item_embedding = emb\<rparr>]) w')"

definition create_embeddings ::
  "env \<Rightarrow> CreateEmbeddingsBody \<Rightarrow> world \<Rightarrow> (error + CreateEmbeddingsOutput) \<times> world" where
  "create_embeddings e data w =
     (case new_text_splitter e (create_chunk_size data) 20 w of
        (Inl err, w1) \<Rightarrow> (Inl err, w1)
      | (Inr text_splitter, w1) \<Rightarrow>
          (let documents = text_splitter (create_text data) in
           case model_encode e documents (create_batch_size data) w1 of
             (Inl err, w2) \<Rightarrow> (Inl err, w2)
           | (Inr output, w2) \<Rightarrow>
               (case insert_loop e data (zip documents output) [] w2 of
                  (result, w3) \<Rightarrow> (Inr \<lparr>items = result\<rparr>, w3))))"

section \<open>\<^verbatim>\<open>routers/encode.py\<close>\<close>

text \<open>
  \<^verbatim>\<open>EncodeQueryBody\<close> declares the field \<^verbatim>\<open>query\<close> and no other, and a request's
  further fields are dropped when the body is built: reading \<^verbatim>\<open>data.batch_size\<close>
  raises \<^verbatim>\<open>AttributeError\<close>.
\<close>

definition EncodeQueryBody_batch_size :: "EncodeQueryBody \<Rightarrow> error + int option" where
  "EncodeQueryBody_batch_size data = Inl (AttributeError ''batch_size'')"

text \<open>
  The arguments of \<^verbatim>\<open>model.encode\<close> are evaluated before the call:
  \<^verbatim>\<open>data.query\<close>, then \<^verbatim>\<open>data.batch_size\<close>.
\<close>

definition encode_query :: "env \<Rightarrow> EncodeQueryBody \<Rightarrow> world \<Rightarrow> (error + embedding) \<times> world" where
  "encode_query e data w =
     (let query = eq_query data in
      case EncodeQueryBody_batch_size data of
        Inl err \<Rightarrow> (Inl err, w)
      | Inr batch_size \<Rightarrow> model_encode_query e query batch_size w)"


text \<open>\<^verbatim>\<open>bulk_encode\<close>: the nested loops that fill \<^verbatim>\<open>input_data\<close>.\<close>

definition bulk_input_data ::
  "(string \<Rightarrow> string list) \<Rightarrow> BulkEncodeItem list \<Rightarrow> (string \<times> string) list" where
  "bulk_input_data split_text texts =
     concat (map (\<lambda>item. map (\<lambda>text. (bulk_item_id item, text))
                            (split_text (bulk_item_text item))) texts)"

text \<open>
  The loop \<^verbatim>\<open>for i, item in enumerate(input_data)\<close>; \<^verbatim>\<open>embeddings_list[i]\<close> raises
  \<^verbatim>\<open>IndexError\<close> past the end of the array.
\<close>

fun bulk_output_loop ::
  "embedding list \<Rightarrow> nat \<Rightarrow> (string \<times> string) list \<Rightarrow> BulkEncodeOutput list \<Rightarrow>
   error + BulkEncodeOutput list" where
  "bulk_output_loop embeddings_list i [] output = Inr output"
| "bulk_output_loop embeddings_list i (item # rest) output =
     (if i < length embeddings_list
      then bulk_output_loop embeddings_list (Suc i) rest
             (output @ [\<lparr>bo_id = fst item, bo_text = snd item,
                          bo_embedding = embeddings_list ! i\<rparr>])
      else Inl IndexError)"

definition bulk_encode ::
  "env \<Rightarrow> BulkEncodeBody \<Rightarrow> world \<Rightarrow> (error + BulkEncodeOutput list) \<times> world" where
  "bulk_encode e data w =
     (case new_text_splitter e (bulk_chunk_size data) 20 w of
        (Inl err, w1) \<Rightarrow> (Inl err, w1)
      | (Inr text_splitter, w1) \<Rightarrow>
          (let input_data = bulk_input_data text_splitter (bulk_texts data);
               raw_input = map snd input_data in
           case model_encode e raw_input (bulk_batch_size data) w1 of
             (Inl err, w2) \<Rightarrow> (Inl err, w2)
           | (Inr embeddings_list, w2) \<Rightarrow>
               (bulk_output_loop embeddings_list 0 input_data [], w2)))"

section \<open>A concrete environment\<close>

text \<open>
  Stand-ins for the libraries, used to run the handlers on concrete requests: a splitter
  that refuses an overlap above the chunk size and cuts a text at its spaces, a model
  that refuses a missing or non-positive batch size and maps every string to a unit
  vector, and the cosine distance of two real vectors.
\<close>

fun split_at_spaces :: "string \<Rightarrow> string \<Rightarrow> string list" where
  "split_at_spaces word [] = (if word = [] then [] else [word])"
| "split_at_spaces word (c # cs) =
     (if c = CHR '' ''
      then (if word = [] then split_at_spaces [] cs else word # split_at_spaces [] cs)
      else split_at_spaces (word @ [c]) cs)"

definition demo_splitter :: "string list \<Rightarrow> int option \<Rightarrow> int \<Rightarrow> error + (string \<Rightarrow> string list)" where
  "demo_splitter seps chunk_size chunk_overlap =
     (case chunk_size of
        None \<Rightarrow> Inl (SplitterError ''chunk size is missing'')
      | Some c \<Rightarrow>
          if chunk_overlap > c then Inl (SplitterError ''chunk overlap larger than chunk size'')
          else Inr (split_at_spaces []))"

definition demo_vector :: "string \<Rightarrow> embedding" where
  "demo_vector s = (if s = ''a'' then [1, 0, 0] else if s = ''b'' then [0, 1, 0] else [0, 0, 1])"

definition demo_encode_list :: "string list \<Rightarrow> int option \<Rightarrow> error + embedding list" where
  "demo_encode_list sentences batch_size =
     (case batch_size of
        None \<Rightarrow> Inl (EncoderError ''batch size is missing'')
      | Some b \<Rightarrow>
          if b \<le> 0 then Inl (EncoderError ''batch size is not positive'')
          else Inr (map demo_vector sentences))"

definition dot :: "real list \<Rightarrow> real list \<Rightarrow> real" where
  "dot a b = sum_list (map (\<lambda>(x, y). x * y) (zip a b))"

definition real_cosine_distance :: "embedding \<Rightarrow> embedding \<Rightarrow> real" where
  "real_cosine_distance a b = 1 - dot a b / (sqrt (dot a a) * sqrt (dot b b))"

definition demo_env :: env where
  "demo_env =
     \<lparr>RecursiveCharacterTextSplitter = demo_splitter,
      encode_list = demo_encode_list,
      encode_str = (\<lambda>s batch_size. Inr (demo_vector s)),
      cosine_distance = real_cosine_distance,
      uuid_generate = (\<lambda>n. ''id-'' @ replicate n (CHR ''i''))\<rparr>"


definition empty_world :: world where
  "empty_world = \<lparr>embeddings_table = [], uuid_counter = 0, calls = []\<rparr>"

text \<open>The store of the spec's scenario: a record of reference A and one of reference B.\<close>

definition row_A :: db_row where
  "row_A = \<lparr>row_uuid = ''id-'', row_text = ''a'', row_reference_id = ''A'',
            row_embedding = [1, 0, 0], row_language = None, row_meta = []\<rparr>"

definition row_B :: db_row where
  "row_B = \<lparr>row_uuid = ''id-i'', row_text = ''b'', row_reference_id = ''B'',
            row_embedding = [0, 1, 0], row_language = None, row_meta = []\<rparr>"

definition world_AB :: world where
  "world_AB = \<lparr>embeddings_table = [row_A, row_B], uuid_counter = 2, calls = []\<rparr>"

text \<open>Concrete requests.\<close>

definition search_a :: SearchEmbeddingsBody where
  "search_a = \<lparr>search_query = ''a'', search_language = None, search_cutoff = Some (1 / 5),
               search_top_k = Some 10\<rparr>"



section \<open>Search\<close>

lemma insort_key_map_commute:
  "insort_key f (g x) (map g xs) = map g (insort_key (\<lambda>y. f (g y)) x xs)"
  by (induction xs) simp_all

lemma sort_key_map_commute:
  "sort_key f (map g xs) = map g (sort_key (\<lambda>y. f (g y)) xs)"
  by (induction xs) (simp_all add: insort_key_map_commute)

lemma match_score_score_row [simp]:
  "match_score (score_row e q r) = 1 - cosine_distance e (row_embedding r) q"
  by (simp add: match_score_def score_row_def)

lemma sorted_desc_sort_key:
  "sorted_wrt (\<lambda>a b. f b \<le> (f a :: real)) (sort_key (\<lambda>y. - f y) xs)"
proof -
  have "sorted (map (\<lambda>y. - f y) (sort_key (\<lambda>y. - f y) xs))"
    by (rule sorted_sort_key)
  then show ?thesis
    by (simp add: sorted_map)
qed

lemma select_rows:
  "order_by_score_desc (filter (where_score_gt (Some c)) (map (score_row e q) rows)) =
   map (score_row e q)
     (sort_key (\<lambda>r. - (1 - cosine_distance e (row_embedding r) q))
        (filter (\<lambda>r. c < 1 - cosine_distance e (row_embedding r) q) rows))"
  by (simp add: order_by_score_desc_def filter_map sort_key_map_commute where_score_gt_def
      comp_def)

text \<open>The cosine distance of the unit vectors of the concrete store.\<close>

lemma real_cosine_distance_same: "real_cosine_distance [1, 0, 0] [1, 0, 0] = 0"
  by (simp add: real_cosine_distance_def dot_def)

lemma real_cosine_distance_orthogonal: "real_cosine_distance [0, 1, 0] [1, 0, 0] = 1"
  by (simp add: real_cosine_distance_def dot_def)

lemma calls_log_call [simp]: "calls (log_call ev w) = calls w @ [ev]"
  by (simp add: log_call_def)

lemma table_log_call [simp]: "embeddings_table (log_call ev w) = embeddings_table w"
  by (simp add: log_call_def)

lemma counter_log_call [simp]: "uuid_counter (log_call ev w) = uuid_counter w"
  by (simp add: log_call_def)

text \<open>
  Claim C1. When the model has encoded the query into \<open>q\<close> and the request carries a
  cutoff \<open>c\<close> and a limit \<open>k \<ge> 0\<close>, the search returns the first \<open>k\<close> entries of a
  list \<open>rs\<close> that holds exactly the stored records whose score
  \<open>1 - cosine_distance embedding q\<close> is above \<open>c\<close> (as a multiset: each as often as it
  is stored), in descending order of that score; the table is left as it was.
\<close>

theorem search_embeddings_correct:
  assumes enc: "encode_str e (search_query data) (Some 32) = Inr q"
      and cut: "search_cutoff data = Some c"
      and top: "search_top_k data = Some k"
      and k: "0 \<le> k"
  shows "\<exists>rs. fst (search_embeddings e data w) =
                Inr (map (\<lambda>r. \<lparr>sr_uuid = row_uuid r, sr_text = row_text r,
                                sr_reference_id = row_reference_id r,
                                sr_score = 1 - cosine_distance e (row_embedding r) q\<rparr>)
                       (take (nat k) rs))
            \<and> mset rs = filter_mset (\<lambda>r. c < 1 - cosine_distance e (row_embedding r) q)
                          (mset (embeddings_table w))
            \<and> sorted_wrt (\<lambda>a b. 1 - cosine_distance e (row_embedding b) q
                                \<le> 1 - cosine_distance e (row_embedding a) q) rs
            \<and> embeddings_table (snd (search_embeddings e data w)) = embeddings_table w"
proof -
  let ?score = "\<lambda>r. 1 - cosine_distance e (row_embedding r) q"
  let ?rs = "sort_key (\<lambda>r. - ?score r) (filter (\<lambda>r. c < ?score r) (embeddings_table w))"
  have res: "search_embeddings e data w =
      (Inr (map to_SearchResult (take (nat k) (map (score_row e q) ?rs))),
       log_call (SqlSelect q (Some c) (Some k))
         (log_call (ModelEncodeQuery (search_query data) (Some 32)) w))"
    using enc cut top k
    by (simp add: search_embeddings_def model_encode_query_def execute_search_def
        limit_rows_def select_rows log_call_def)
  have conv: "map to_SearchResult (take (nat k) (map (score_row e q) ?rs)) =
      map (\<lambda>r. \<lparr>sr_uuid = row_uuid r, sr_text = row_text r,
                 sr_reference_id = row_reference_id r, sr_score = ?score r\<rparr>)
        (take (nat k) ?rs)"
    by (simp add: take_map to_SearchResult_def score_row_def)
  have m: "mset ?rs = filter_mset (\<lambda>r. c < ?score r) (mset (embeddings_table w))"
    by simp
  have s: "sorted_wrt (\<lambda>a b. ?score b \<le> ?score a) ?rs"
    by (rule sorted_desc_sort_key)
  have t: "embeddings_table (snd (search_embeddings e data w)) = embeddings_table w"
    by (simp add: res log_call_def)
  show ?thesis
    apply (rule exI [of _ ?rs])
    using res conv m s t by simp
qed

text \<open>
  The scenario of the spec, through the theorem: records with the embeddings
  \<open>[1, 0, 0]\<close> and \<open>[0, 1, 0]\<close>, a query encoded as \<open>[1, 0, 0]\<close>, cutoff 0.2 and
  limit 10. One result, of score 1.
\<close>

theorem search_embeddings_correct_witness:
  "fst (search_embeddings demo_env search_a world_AB) =
     Inr [\<lparr>sr_uuid = ''id-'', sr_text = ''a'', sr_reference_id = ''A'', sr_score = 1\<rparr>]"
proof -
  have enc: "encode_str demo_env (search_query search_a) (Some 32) = Inr [1, 0, 0]"
    by (simp add: demo_env_def search_a_def demo_vector_def)
  have cut: "search_cutoff search_a = Some (1 / 5)"
    by (simp add: search_a_def)
  have top: "search_top_k search_a = Some 10"
    by (simp add: search_a_def)
  have k: "(0::int) \<le> 10"
    by simp
  from search_embeddings_correct [OF enc cut top k, of world_AB] obtain rs where
    res: "fst (search_embeddings demo_env search_a world_AB) =
            Inr (map (\<lambda>r. \<lparr>sr_uuid = row_uuid r, sr_text = row_text r,
                            sr_reference_id = row_reference_id r,
                            sr_score = 1 - cosine_distance demo_env (row_embedding r) [1, 0, 0]\<rparr>)
                   (take (nat 10) rs))"
    and ms: "mset rs = filter_mset (\<lambda>r. 1 / 5 < 1 - cosine_distance demo_env (row_embedding r) [1, 0, 0])
                          (mset (embeddings_table world_AB))"
    by (elim exE conjE)
  have "mset rs = {#row_A#}"
    using ms by (simp add: world_AB_def row_A_def row_B_def demo_env_def real_cosine_distance_same real_cosine_distance_orthogonal)
  then have "rs = [row_A]"
    by simp
  with res show ?thesis
    by (simp add: row_A_def demo_env_def real_cosine_distance_same)
qed

text \<open>
  Claim C9. Two search requests that differ in the language field only have the same
  outcome: the same results (or the same error) and the same final state.
\<close>

theorem search_language_ignored:
  "search_embeddings e (data\<lparr>search_language := l\<rparr>) w = search_embeddings e data w"
  by (simp add: search_embeddings_def split: prod.splits sum.splits)

section \<open>The delete handlers\<close>

lemma delete_embeddings_uuid_state:
  "delete_embeddings_uuid uuid w = ([(''uuid'', uuid)], w)"
  by (simp add: delete_embeddings_uuid_def)

lemma delete_embeddings_reference_id_state:
  "delete_embeddings_reference_id reference_id w = ([(''reference_id'', reference_id)], w)"
  by (simp add: delete_embeddings_reference_id_def)

text \<open>
  Claim C2, at a store that holds a record of identifier \<^verbatim>\<open>id-\<close>: the handler of
  \<^verbatim>\<open>DELETE /embeddings/{uuid}\<close> answers with the identifier and leaves the store as it
  was, the record still in the table.
\<close>

theorem delete_by_uuid_keeps_record:
  "delete_embeddings_uuid ''id-'' world_AB = ([(''uuid'', ''id-'')], world_AB)
   \<and> row_uuid row_A = ''id-''
   \<and> embeddings_table (snd (delete_embeddings_uuid ''id-'' world_AB)) = [row_A, row_B]"
  by (simp add: delete_embeddings_uuid_def world_AB_def row_A_def)

text \<open>
  Claim C3, on the scenario of the spec: after the handler of
  \<^verbatim>\<open>DELETE /embeddings/reference/{reference_id}\<close> has run for the reference A, the
  table still holds the record of reference A, and the search for the query encoded as
  \<open>[1, 0, 0]\<close> returns it with score 1.
\<close>

theorem delete_by_reference_keeps_records:
  "embeddings_table (snd (delete_embeddings_reference_id ''A'' world_AB)) = [row_A, row_B]
   \<and> row_reference_id row_A = ''A''
   \<and> fst (search_embeddings demo_env search_a (snd (delete_embeddings_reference_id ''A'' world_AB))) =
       Inr [\<lparr>sr_uuid = ''id-'', sr_text = ''a'', sr_reference_id = ''A'', sr_score = 1\<rparr>]"
  by (simp add: delete_embeddings_reference_id_def world_AB_def row_A_def row_B_def
      search_embeddings_def search_a_def model_encode_query_def execute_search_def
      demo_env_def demo_vector_def score_row_def where_score_gt_def match_score_def
      order_by_score_desc_def limit_rows_def to_SearchResult_def real_cosine_distance_same real_cosine_distance_orthogonal)

section \<open>Encoding a query\<close>

lemma encode_query_fails: "encode_query e data w = (Inl (AttributeError ''batch_size''), w)"
  by (simp add: encode_query_def EncodeQueryBody_batch_size_def)

text \<open>
  Claim C4, at the request \<^verbatim>\<open>{"query": "a"}\<close>: \<^verbatim>\<open>encode_query\<close> raises
  \<^verbatim>\<open>AttributeError\<close> for the attribute \<^verbatim>\<open>batch_size\<close>; the model is not called and
  no embedding is returned.
\<close>

theorem encode_query_always_fails:
  "encode_query demo_env \<lparr>eq_query = ''a''\<rparr> empty_world =
     (Inl (AttributeError ''batch_size''), empty_world)"
  by (simp add: encode_query_def EncodeQueryBody_batch_size_def)

section \<open>Ingestion and direct encoding\<close>



lemma insert_loop_length:
  "length (fst (insert_loop e data ps result w)) = length result + length ps"
  by (induction ps arbitrary: result w) (auto simp: execute_insert_def Let_def)







text \<open>
  The pairing of chunks and vectors is \<^verbatim>\<open>zip\<close>, which stops at the shorter list:
  ingestion returns as many items as the shorter of the two has entries.
\<close>

lemma create_embeddings_truncates:
  assumes "RecursiveCharacterTextSplitter e separators (create_chunk_size data) 20 = Inr split"
      and "encode_list e (split (create_text data)) (create_batch_size data) = Inr vectors"
  shows "\<exists>result. fst (create_embeddings e data w) = Inr \<lparr>items = result\<rparr>
           \<and> length result = min (length (split (create_text data))) (length vectors)"
  using assms
  by (simp add: create_embeddings_def new_text_splitter_def model_encode_def Let_def
      case_prod_beta insert_loop_length)












section \<open>Bulk encoding\<close>

text \<open>
  \<^verbatim>\<open>bulk_encode\<close> pairs chunks and vectors by index: it raises \<^verbatim>\<open>IndexError\<close> when
  the model returns fewer vectors than chunks, and keeps the order of the chunks
  otherwise.
\<close>

lemma bulk_output_loop_short:
  "input_data \<noteq> [] \<Longrightarrow> length embeddings_list < i + length input_data \<Longrightarrow>
   bulk_output_loop embeddings_list i input_data out = Inl IndexError"
proof (induction input_data arbitrary: i out)
  case Nil
  then show ?case by simp
next
  case (Cons item rest)
  show ?case
  proof (cases "i < length embeddings_list")
    case True
    with Cons.prems have "rest \<noteq> []" and "length embeddings_list < Suc i + length rest"
      by auto
    with Cons.IH True show ?thesis
      by simp
  next
    case False
    then show ?thesis by simp
  qed
qed

lemma bulk_output_loop_ok:
  "i + length input_data \<le> length embeddings_list \<Longrightarrow>
   \<exists>new. bulk_output_loop embeddings_list i input_data out = Inr (out @ new)
     \<and> map bo_id new = map fst input_data \<and> map bo_text new = map snd input_data
     \<and> map bo_embedding new = take (length input_data) (drop i embeddings_list)"
proof (induction input_data arbitrary: i out)
  case Nil
  then show ?case by simp
next
  case (Cons item rest)
  let ?o = "\<lparr>bo_id = fst item, bo_text = snd item, bo_embedding = embeddings_list ! i\<rparr>"
  from Cons.prems have i: "i < length embeddings_list" and r: "Suc i + length rest \<le> length embeddings_list"
    by simp_all
  from Cons.IH [OF r, of "out @ [?o]"] obtain new where
    new: "bulk_output_loop embeddings_list (Suc i) rest (out @ [?o]) = Inr ((out @ [?o]) @ new)"
      "map bo_id new = map fst rest" "map bo_text new = map snd rest"
      "map bo_embedding new = take (length rest) (drop (Suc i) embeddings_list)"
    by (elim exE conjE)
  have d: "drop i embeddings_list = embeddings_list ! i # drop (Suc i) embeddings_list"
    using i by (simp add: Cons_nth_drop_Suc)
  show ?case
    by (rule exI [of _ "?o # new"]) (use i new d in simp)
qed

lemma bulk_encode_short:
  assumes sp: "RecursiveCharacterTextSplitter e separators (bulk_chunk_size data) 20 = Inr split"
      and enc: "encode_list e (map snd (bulk_input_data split (bulk_texts data)))
                  (bulk_batch_size data) = Inr vectors"
      and short: "length vectors < length (bulk_input_data split (bulk_texts data))"
  shows "fst (bulk_encode e data w) = Inl IndexError"
proof -
  from short have ne: "bulk_input_data split (bulk_texts data) \<noteq> []"
    by auto
  from short have lt: "length vectors < 0 + length (bulk_input_data split (bulk_texts data))"
    by simp
  show ?thesis
    using sp enc bulk_output_loop_short [OF ne lt, of "[]"]
    by (simp add: bulk_encode_def new_text_splitter_def model_encode_def Let_def)
qed

lemma bulk_encode_order:
  assumes sp: "RecursiveCharacterTextSplitter e separators (bulk_chunk_size data) 20 = Inr split"
      and enc: "encode_list e (map snd (bulk_input_data split (bulk_texts data)))
                  (bulk_batch_size data) = Inr vectors"
      and len: "length (bulk_input_data split (bulk_texts data)) \<le> length vectors"
  shows "\<exists>out. fst (bulk_encode e data w) = Inr out
           \<and> map bo_id out = map fst (bulk_input_data split (bulk_texts data))
           \<and> map bo_text out = map snd (bulk_input_data split (bulk_texts data))
           \<and> map bo_embedding out =
               take (length (bulk_input_data split (bulk_texts data))) vectors"
proof -
  from len have le: "0 + length (bulk_input_data split (bulk_texts data)) \<le> length vectors"
    by simp
  from bulk_output_loop_ok [OF le, of "[]"] obtain new where
    new: "bulk_output_loop vectors 0 (bulk_input_data split (bulk_texts data)) [] = Inr ([] @ new)"
      "map bo_id new = map fst (bulk_input_data split (bulk_texts data))"
      "map bo_text new = map snd (bulk_input_data split (bulk_texts data))"
      "map bo_embedding new =
         take (length (bulk_input_data split (bulk_texts data))) (drop 0 vectors)"
    by (elim exE conjE)
  show ?thesis
    by (rule exI [of _ new])
      (use sp enc new in \<open>simp add: bulk_encode_def new_text_splitter_def model_encode_def Let_def\<close>)
qed

end
